theory Spec2Isabelle
  imports Complex_Main
begin

section \<open>Python values shared by the modules\<close>

text \<open>
  Exceptions are values.  A function of the source that can raise returns
  \<open>py_error + 'a\<close>, with \<open>Inl\<close> for the exception.  \<open>RaisedError\<close> stands for
  an exception of any other class, raised by code the caller supplies.
\<close>

datatype py_error =
    ImportError
  | SystemError
  | ValueError
  | AttributeError
  | TypeError
  | MathError
  | PackageMissingError
  | RaisedError

text \<open>
  Python compares two \<open>str\<close> values lexicographically by code point; this is what
  \<open>brainpylib.__version__ < _minimal_brainpylib_version\<close> computes on two strings.
\<close>

fun str_lt :: "string \<Rightarrow> string \<Rightarrow> bool" where
  "str_lt [] [] = False"
| "str_lt [] (y # ys) = True"
| "str_lt (x # xs) [] = False"
| "str_lt (x # xs) (y # ys) =
     (if (of_char x :: nat) < of_char y then True
      else if (of_char y :: nat) < of_char x then False
      else str_lt xs ys)"

text \<open>The decimal rendering of a non-negative integer, as an f-string prints it.\<close>

definition digit_char :: "nat \<Rightarrow> char" where
  "digit_char d =
     (if d = 0 then CHR ''0'' else if d = 1 then CHR ''1'' else if d = 2 then CHR ''2''
      else if d = 3 then CHR ''3'' else if d = 4 then CHR ''4'' else if d = 5 then CHR ''5''
      else if d = 6 then CHR ''6'' else if d = 7 then CHR ''7'' else if d = 8 then CHR ''8''
      else CHR ''9'')"

function str_nat :: "nat \<Rightarrow> string" where
  "str_nat n =
     (if n < 10 then [digit_char n] else str_nat (n div 10) @ [digit_char (n mod 10)])"
  by pat_completeness auto
termination
  by (relation "measure id") auto

section \<open>The extension loader: \<open>brainpy/_src/dependency_check.py\<close>\<close>

text \<open>
  What the interpreter finds when the loader imports \<open>brainpylib\<close>: nothing
  (\<open>None\<close>), or a package with its \<open>__version__\<close> string, its two platform
  submodules (\<open>None\<close> when \<open>from brainpylib import cpu_ops\<close> raises
  \<open>ImportError\<close>) and, when the package has the attribute, the outcome of
  \<open>check_brainpy_version()\<close>: \<open>None\<close> when it returns, \<open>Some e\<close> when it
  raises \<open>e\<close>.  A capsule is an opaque native address.
\<close>

type_synonym capsule = nat

record ops_module =
  registrations :: "(string \<times> capsule) list"

record brainpylib_pkg =
  version :: string
  cpu_ops :: "ops_module option"
  gpu_ops :: "ops_module option"
  check_brainpy_version :: "py_error option option"

text \<open>
  The module globals \<open>brainpylib_cpu_ops\<close> and \<open>brainpylib_gpu_ops\<close>, and the
  calls \<open>xla_client.register_custom_call_target(name, value, platform)\<close> made so
  far, in order.
\<close>

record loader_state =
  brainpylib_cpu_ops :: "ops_module option"
  brainpylib_gpu_ops :: "ops_module option"
  call_targets :: "(string \<times> capsule \<times> string) list"

definition loader_init :: loader_state where
  "loader_init =
     \<lparr>brainpylib_cpu_ops = None, brainpylib_gpu_ops = None, call_targets = []\<rparr>"

definition minimal_brainpylib_version :: string where
  "minimal_brainpylib_version = ''0.1.10''"

text \<open>
  The loop over \<open>registrations().items()\<close>: one registration call per exported
  symbol, for the given platform.
\<close>

definition register_items ::
  "string \<Rightarrow> (string \<times> capsule) list \<Rightarrow> (string \<times> capsule \<times> string) list
     \<Rightarrow> (string \<times> capsule \<times> string) list" where
  "register_items platform items targets =
     foldl (\<lambda>ts (n, v). ts @ [(n, v, platform)]) targets items"

text \<open>
  The statements of the \<open>try\<close> block that follow the import: the version test
  (raising \<open>SystemError\<close>, which the \<open>except ImportError\<close> clause lets pass) and
  the optional \<open>check_brainpy_version()\<close> (an \<open>ImportError\<close> it raises is replaced
  by the clause's own \<open>ImportError\<close>; any other exception passes).
\<close>

definition version_checks :: "brainpylib_pkg \<Rightarrow> py_error option" where
  "version_checks pkg =
     (if str_lt (version pkg) minimal_brainpylib_version then Some SystemError
      else (case check_brainpy_version pkg of
              None \<Rightarrow> None
            | Some None \<Rightarrow> None
            | Some (Some e) \<Rightarrow> Some e))"

text \<open>
  \<open>import_brainpylib_cpu_ops\<close>.  The statement
  \<open>from brainpylib import cpu_ops as brainpylib_cpu_ops\<close> binds the global as soon
  as the import succeeds, before the registrations and before the version test.
\<close>

definition import_brainpylib_cpu_ops ::
  "brainpylib_pkg option \<Rightarrow> loader_state \<Rightarrow> (py_error + ops_module) \<times> loader_state" where
  "import_brainpylib_cpu_ops env s =
     (case brainpylib_cpu_ops s of
        Some m \<Rightarrow> (Inr m, s)
      | None \<Rightarrow>
          (case env of
             None \<Rightarrow> (Inl ImportError, s)
           | Some pkg \<Rightarrow>
               (case cpu_ops pkg of
                  None \<Rightarrow> (Inl ImportError, s)
                | Some m \<Rightarrow>
                    (let s1 = s\<lparr>brainpylib_cpu_ops := Some m\<rparr>;
                         s2 = s1\<lparr>call_targets :=
                                   register_items ''cpu'' (registrations m) (call_targets s1)\<rparr>
                     in case version_checks pkg of
                          Some e \<Rightarrow> (Inl e, s2)
                        | None \<Rightarrow> (Inr m, s2)))))"

definition import_brainpylib_gpu_ops ::
  "brainpylib_pkg option \<Rightarrow> loader_state \<Rightarrow> (py_error + ops_module) \<times> loader_state" where
  "import_brainpylib_gpu_ops env s =
     (case brainpylib_gpu_ops s of
        Some m \<Rightarrow> (Inr m, s)
      | None \<Rightarrow>
          (case env of
             None \<Rightarrow> (Inl ImportError, s)
           | Some pkg \<Rightarrow>
               (case gpu_ops pkg of
                  None \<Rightarrow> (Inl ImportError, s)
                | Some m \<Rightarrow>
                    (let s1 = s\<lparr>brainpylib_gpu_ops := Some m\<rparr>;
                         s2 = s1\<lparr>call_targets :=
                                   register_items ''gpu'' (registrations m) (call_targets s1)\<rparr>
                     in case version_checks pkg of
                          Some e \<Rightarrow> (Inl e, s2)
                        | None \<Rightarrow> (Inr m, s2)))))"

text \<open>An installed package whose version, \<open>0.1.0\<close>, is older than the minimum.\<close>

definition old_pkg :: brainpylib_pkg where
  "old_pkg =
     \<lparr>version = ''0.1.0'',
      cpu_ops = Some \<lparr>registrations = [(''cpu_event_sum'', 1)]\<rparr>,
      gpu_ops = Some \<lparr>registrations = [(''gpu_event_sum'', 2)]\<rparr>,
      check_brainpy_version = None\<rparr>"

section \<open>The native-operator runtime: \<open>extensions/brainpylib/operator/cpu_op.py\<close>\<close>

subsection \<open>Arrays, descriptors and the objects an evaluator handles\<close>

type_synonym shape = "nat list"

datatype dtype = Float32 | Float64 | Int32 | Bool8

text \<open>
  A concrete array: shape, dtype and the elements in row-major order.
\<close>

datatype 'a ndarray = Array (shape_of: shape) (dtype_of: dtype) (data_of: "'a list")

text \<open>
  The Python objects that \<open>out_shapes\<close> and the abstract evaluator can meet: a
  concrete array, a \<open>jax.abstract_arrays.ShapedArray\<close>, a tuple or list, and an
  \<open>int\<close> as the representative of an object that is none of these.
\<close>

datatype 'a pyobj =
    NDArray "'a ndarray"
  | ShapedArray shape dtype
  | PySeq "'a pyobj list"
  | PyInt int

text \<open>
  The argument \<open>out_shapes\<close> of \<open>register_cpu_op\<close>: a callable (which may raise),
  or any other object.
\<close>

datatype 'a out_spec =
    Callable "'a pyobj list \<Rightarrow> py_error + 'a pyobj"
  | Object "'a pyobj"

fun is_ShapedArray :: "'a pyobj \<Rightarrow> bool" where
  "is_ShapedArray (ShapedArray sh dt) = True"
| "is_ShapedArray (NDArray a) = False"
| "is_ShapedArray (PySeq xs) = False"
| "is_ShapedArray (PyInt i) = False"

text \<open>
  \<open>isinstance(x, collections.abc.Collection)\<close>: true of tuples, lists and numpy
  arrays (they have \<open>__len__\<close>, \<open>__iter__\<close> and \<open>__contains__\<close>), false of a
  \<open>ShapedArray\<close> and of an \<open>int\<close>.
\<close>

fun is_Collection :: "'a pyobj \<Rightarrow> bool" where
  "is_Collection (NDArray a) = True"
| "is_Collection (PySeq xs) = True"
| "is_Collection (ShapedArray sh dt) = False"
| "is_Collection (PyInt i) = False"

text \<open>The attributes \<open>.shape\<close> and \<open>.dtype\<close>.\<close>

fun attr_shape :: "'a pyobj \<Rightarrow> py_error + shape" where
  "attr_shape (NDArray a) = Inr (shape_of a)"
| "attr_shape (ShapedArray sh dt) = Inr sh"
| "attr_shape (PySeq xs) = Inl AttributeError"
| "attr_shape (PyInt i) = Inl AttributeError"

fun attr_dtype :: "'a pyobj \<Rightarrow> py_error + dtype" where
  "attr_dtype (NDArray a) = Inr (dtype_of a)"
| "attr_dtype (ShapedArray sh dt) = Inr dt"
| "attr_dtype (PySeq xs) = Inl AttributeError"
| "attr_dtype (PyInt i) = Inl AttributeError"

text \<open>
  \<open>for x in obj\<close>: the elements of a tuple or list; the sub-arrays along the
  first axis of an array (a 0-d array cannot be iterated); \<open>TypeError\<close> otherwise.
\<close>

fun py_iter :: "'a pyobj \<Rightarrow> py_error + 'a pyobj list" where
  "py_iter (PySeq xs) = Inr xs"
| "py_iter (NDArray (Array [] dt d)) = Inl TypeError"
| "py_iter (NDArray (Array (n # rest) dt d)) =
     Inr (map (\<lambda>i. NDArray (Array rest dt
                 (take (prod_list rest) (drop (i * prod_list rest) d)))) [0..<n])"
| "py_iter (ShapedArray sh dt) = Inl TypeError"
| "py_iter (PyInt i) = Inl TypeError"

text \<open>\<open>np.zeros(shape, dtype=dtype)\<close>.\<close>

definition np_zeros :: "shape \<Rightarrow> dtype \<Rightarrow> ('a::zero) ndarray" where
  "np_zeros sh dt = Array sh dt (replicate (prod_list sh) 0)"

subsection \<open>Kernels, primitives and the process-wide tables\<close>

text \<open>
  A kernel is a Python callable: its \<open>__name__\<close>, whether it is a plain function
  or lambda (\<open>isinstance(func, LambdaType)\<close>), whether it is already a numba
  \<open>Dispatcher\<close>, and what a call \<open>func(outputs, inputs)\<close> does: it raises, or it
  writes into the output buffers, whose contents after the call are returned.
\<close>

record 'a kernel =
  kernel_name :: string
  is_function :: bool
  is_dispatcher :: bool
  run :: "'a ndarray list \<Rightarrow> 'a ndarray list \<Rightarrow> py_error + 'a ndarray list"

text \<open>\<open>numba.jit(fastmath=True, nopython=True)(func)\<close>: the same code, as a \<open>Dispatcher\<close>.\<close>

definition numba_jit :: "'a kernel \<Rightarrow> 'a kernel" where
  "numba_jit func = func\<lparr>is_function := False, is_dispatcher := True\<rparr>"

text \<open>
  A \<open>core.Primitive\<close> with the rules \<open>register_cpu_op\<close> binds to it: the kernel
  and the \<open>out_shapes\<close> that \<open>eval_rule\<close> and \<open>abs_eval_rule\<close> close over.  The
  operator handed back to the caller is the closure \<open>bind_primitive\<close>; it holds the
  primitive object, whose identity is its position among the primitives created.
\<close>

record 'a primitive =
  prim_name :: string
  multiple_results :: bool
  prim_func :: "'a kernel"
  prim_out_shapes :: "'a out_spec"

record 'a operator =
  op_ident :: nat
  op_prim :: "'a primitive"

text \<open>
  The wrapper that \<open>_compile_cpu_signature\<close> generates: the kernel it calls and the
  static shapes and dtypes its source text captures.  \<open>NativeNameOf n\<close> is the
  \<open>native_name\<close> of the \<open>n\<close>-th function compiled by \<open>numba.cfunc\<close>, and the
  capsule registered with it wraps that function's address under the tag string.
\<close>

record trampoline =
  func_to_call :: string
  input_dtypes :: "dtype list"
  input_shapes :: "shape list"
  output_dtypes :: "dtype list"
  output_shapes :: "shape list"

datatype target_name = NativeNameOf nat

record custom_call_target =
  target :: target_name
  capsule_address :: nat
  capsule_tag :: string
  platform :: string

text \<open>
  The process-wide state: the module global \<open>_lambda_no\<close>, the primitives created,
  \<open>xla.backend_specific_translations['cpu']\<close> (keyed by primitive object; the
  value \<open>partial(_func_translation, func, abs_eval_rule)\<close> is given by the kernel
  and \<open>out_shapes\<close>), the functions compiled by \<open>numba.cfunc\<close> and the calls of
  \<open>xla_client.register_custom_call_target\<close>, both in order.
\<close>

record 'a runtime =
  lambda_no :: nat
  primitives :: "'a primitive list"
  cpu_translations :: "nat \<rightharpoonup> ('a kernel \<times> 'a out_spec)"
  compilations :: "trampoline list"
  custom_call_targets :: "custom_call_target list"

definition runtime_init :: "'a runtime" where
  "runtime_init =
     \<lparr>lambda_no = 0, primitives = [], cpu_translations = Map.empty,
      compilations = [], custom_call_targets = []\<rparr>"

subsection \<open>\<open>register_cpu_op\<close> and the rules it defines\<close>

text \<open>
  \<open>abs_eval_rule\<close>, the closure over \<open>out_shapes\<close>.  The checks on \<open>out_shapes\<close>
  are statements of this rule: they run when the rule is called.
\<close>

definition abs_eval_rule :: "'a out_spec \<Rightarrow> 'a pyobj list \<Rightarrow> py_error + 'a pyobj" where
  "abs_eval_rule out_shapes args =
     (case (case out_shapes of
              Callable f \<Rightarrow> f args
            | Object (ShapedArray sh dt) \<Rightarrow> Inr (PySeq [ShapedArray sh dt])
            | Object (PySeq elems) \<Rightarrow>
                (if list_all is_ShapedArray elems then Inr (PySeq elems) else Inl ValueError)
            | Object (NDArray a) \<Rightarrow> Inl ValueError
            | Object (PyInt i) \<Rightarrow> Inl ValueError) of
        Inl e \<Rightarrow> Inl e
      | Inr shapes \<Rightarrow> (if is_Collection shapes then Inr shapes else Inr (PySeq [shapes])))"

text \<open>
  \<open>tuple(np.zeros(shape.shape, dtype=shape.dtype) for shape in output_shapes)\<close>,
  for the elements of \<open>output_shapes\<close>.
\<close>

fun alloc_outputs :: "'a pyobj list \<Rightarrow> py_error + ('a::zero) ndarray list" where
  "alloc_outputs [] = Inr []"
| "alloc_outputs (x # xs) =
     (case attr_shape x of
        Inl e \<Rightarrow> Inl e
      | Inr sh \<Rightarrow>
          (case attr_dtype x of
             Inl e \<Rightarrow> Inl e
           | Inr dt \<Rightarrow>
               (case alloc_outputs xs of
                  Inl e \<Rightarrow> Inl e
                | Inr ys \<Rightarrow> Inr (np_zeros sh dt # ys))))"

text \<open>
  \<open>eval_rule\<close>: the abstract rule is called on the inputs as they are; the inputs
  are arrays, so \<open>np.asarray\<close> leaves them as they are.
\<close>

definition eval_rule ::
  "'a kernel \<Rightarrow> 'a out_spec \<Rightarrow> 'a ndarray list \<Rightarrow> py_error + ('a::zero) ndarray list" where
  "eval_rule func out_shapes inputs =
     (case abs_eval_rule out_shapes (map NDArray inputs) of
        Inl e \<Rightarrow> Inl e
      | Inr shapes \<Rightarrow>
          (case py_iter shapes of
             Inl e \<Rightarrow> Inl e
           | Inr elems \<Rightarrow>
               (case alloc_outputs elems of
                  Inl e \<Rightarrow> Inl e
                | Inr outputs \<Rightarrow> run func outputs inputs)))"

text \<open>
  What an operator returns: \<open>result[0] if len(result) == 1 else result\<close>.
\<close>

datatype 'a py_result = Single "'a ndarray" | Tuple "'a ndarray list"

definition unwrap :: "'a ndarray list \<Rightarrow> 'a py_result" where
  "unwrap result = (case result of [r] \<Rightarrow> Single r | _ \<Rightarrow> Tuple result)"

text \<open>
  \<open>bind_primitive\<close> called outside a trace: \<open>prim.bind\<close> runs the primitive's
  implementation rule, \<open>eval_rule\<close>.  The process-wide state is passed through.
\<close>

definition bind_primitive ::
  "'a operator \<Rightarrow> 'a ndarray list \<Rightarrow> 'a runtime
     \<Rightarrow> (py_error + ('a::zero) py_result) \<times> 'a runtime" where
  "bind_primitive op inputs st =
     (case eval_rule (prim_func (op_prim op)) (prim_out_shapes (op_prim op)) inputs of
        Inl e \<Rightarrow> (Inl e, st)
      | Inr result \<Rightarrow> (Inr (unwrap result), st))"

text \<open>The name \<open>register_cpu_op\<close> gives the primitive.\<close>

definition primitive_name :: "'a kernel \<Rightarrow> 'a runtime \<Rightarrow> string" where
  "primitive_name func st =
     (if is_function func \<and> kernel_name func = ''<lambda>''
      then ''_lambda_func'' @ str_nat (lambda_no st)
      else kernel_name func)"

text \<open>
  \<open>register_cpu_op\<close>.  None of its own statements raises and none assigns
  \<open>_lambda_no\<close>.
\<close>

definition register_cpu_op ::
  "'a kernel \<Rightarrow> 'a out_spec \<Rightarrow> 'a runtime \<Rightarrow> (py_error + 'a operator) \<times> 'a runtime" where
  "register_cpu_op func out_shapes st =
     (let prim_id = length (primitives st);
          jitted = (if is_dispatcher func then func else numba_jit func);
          prim = \<lparr>prim_name = primitive_name func st, multiple_results = True,
                  prim_func = jitted, prim_out_shapes = out_shapes\<rparr>
      in (Inr \<lparr>op_ident = prim_id, op_prim = prim\<rparr>,
          st\<lparr>primitives := primitives st @ [prim],
             cpu_translations := (cpu_translations st)(prim_id \<mapsto> (jitted, out_shapes))\<rparr>))"

subsection \<open>The translation rule and the trampoline compiler\<close>

text \<open>
  A symbolic operand of the builder as \<open>c.get_shape\<close> describes it, and the call
  node \<open>CustomCallWithLayout\<close> builds.  An output's layout is
  \<open>range(len(shape) - 1, -1, -1)\<close>.
\<close>

record xla_shape =
  dimensions :: shape
  element_type :: dtype

record call_node =
  call_target_name :: target_name
  operands :: "xla_shape list"
  operand_shapes_with_layout :: "xla_shape list"
  shape_with_layout :: "(dtype \<times> shape \<times> nat list) list"

text \<open>A comprehension \<open>tuple(g(x) for x in xs)\<close> whose \<open>g\<close> may raise.\<close>

fun collect :: "('b \<Rightarrow> py_error + 'c) \<Rightarrow> 'b list \<Rightarrow> py_error + 'c list" where
  "collect g [] = Inr []"
| "collect g (x # xs) =
     (case g x of
        Inl e \<Rightarrow> Inl e
      | Inr y \<Rightarrow> (case collect g xs of Inl e \<Rightarrow> Inl e | Inr ys \<Rightarrow> Inr (y # ys)))"

text \<open>
  \<open>_compile_cpu_signature\<close>: generate the wrapper for this signature, compile it
  with \<open>numba.cfunc\<close>, wrap its address in a capsule, register it as a cpu call
  target under its native name and return that name.  Nothing is looked up
  before compiling.
\<close>

definition compile_cpu_signature ::
  "'a kernel \<Rightarrow> dtype list \<Rightarrow> shape list \<Rightarrow> dtype list \<Rightarrow> shape list \<Rightarrow> 'a runtime
     \<Rightarrow> target_name \<times> 'a runtime" where
  "compile_cpu_signature func in_dtypes in_shapes out_dtypes out_shapes st =
     (let n = length (compilations st);
          new_f = \<lparr>func_to_call = kernel_name func,
                   input_dtypes = in_dtypes, input_shapes = in_shapes,
                   output_dtypes = out_dtypes, output_shapes = out_shapes\<rparr>;
          st1 = st\<lparr>compilations := compilations st @ [new_f]\<rparr>;
          st2 = st1\<lparr>custom_call_targets := custom_call_targets st1 @
                  [\<lparr>target = NativeNameOf n, capsule_address = n,
                    capsule_tag = ''xla._CUSTOM_CALL_TARGET'', platform = ''cpu''\<rparr>]\<rparr>
      in (NativeNameOf n, st2))"

text \<open>
  \<open>_func_translation\<close>, with \<open>abs_eval_fn\<close> the rule \<open>abs_eval_rule\<close> of the
  operator's \<open>out_shapes\<close>: descriptors are built from the operands' shapes, the
  rule is run on them, and \<open>_compile_cpu_signature\<close> is called.
\<close>

definition func_translation ::
  "'a kernel \<Rightarrow> 'a out_spec \<Rightarrow> xla_shape list \<Rightarrow> 'a runtime
     \<Rightarrow> (py_error + call_node) \<times> 'a runtime" where
  "func_translation func out_shapes inputs st =
     (case abs_eval_rule out_shapes
             (map (\<lambda>sh. ShapedArray (dimensions sh) (element_type sh)) inputs) of
        Inl e \<Rightarrow> (Inl e, st)
      | Inr arrays \<Rightarrow>
          (case py_iter arrays of
             Inl e \<Rightarrow> (Inl e, st)
           | Inr elems \<Rightarrow>
               (case collect attr_shape elems of
                  Inl e \<Rightarrow> (Inl e, st)
                | Inr out_shapes' \<Rightarrow>
                    (case collect attr_dtype elems of
                       Inl e \<Rightarrow> (Inl e, st)
                     | Inr out_dtypes \<Rightarrow>
                         (let layouts = map (\<lambda>sh. rev [0..<length sh]) out_shapes';
                              xla_output_shape = zip out_dtypes (zip out_shapes' layouts);
                              (name, st') =
                                compile_cpu_signature func
                                  (map element_type inputs) (map dimensions inputs)
                                  out_dtypes out_shapes' st
                          in (Inr \<lparr>call_target_name = name, operands = inputs,
                                   operand_shapes_with_layout = inputs,
                                   shape_with_layout = xla_output_shape\<rparr>, st'))))))"

text \<open>
  The backend lowering one use of an operator on the cpu: it looks the primitive
  up in the translation table and calls the rule stored there.
\<close>

definition translation_rule ::
  "'a operator \<Rightarrow> xla_shape list \<Rightarrow> 'a runtime \<Rightarrow> (py_error + call_node) \<times> 'a runtime" where
  "translation_rule op inputs st =
     (case cpu_translations st (op_ident op) of
        None \<Rightarrow> (Inl RaisedError, st)
      | Some (func, out_shapes) \<Rightarrow> func_translation func out_shapes inputs st)"

subsection \<open>The eager procedure as the specification words it\<close>

text \<open>
  The abstract evaluator is run on descriptors built from the concrete inputs;
  zero-initialised buffers are allocated for the descriptors it returns; the
  kernel is called on the buffers and the inputs; a single output is unwrapped.
\<close>

definition descriptor :: "'a ndarray \<Rightarrow> 'a pyobj" where
  "descriptor a = ShapedArray (shape_of a) (dtype_of a)"

definition eager_procedure ::
  "'a kernel \<Rightarrow> 'a out_spec \<Rightarrow> 'a ndarray list \<Rightarrow> py_error + ('a::zero) py_result" where
  "eager_procedure func out_shapes inputs =
     (case abs_eval_rule out_shapes (map descriptor inputs) of
        Inl e \<Rightarrow> Inl e
      | Inr descriptors \<Rightarrow>
          (case py_iter descriptors of
             Inl e \<Rightarrow> Inl e
           | Inr elems \<Rightarrow>
               (case alloc_outputs elems of
                  Inl e \<Rightarrow> Inl e
                | Inr outputs \<Rightarrow>
                    (case run func outputs inputs of
                       Inl e \<Rightarrow> Inl e
                     | Inr result \<Rightarrow> Inr (unwrap result)))))"

text \<open>
  The claim's class of abstract-evaluator specifications that are rejected:
  neither a callable, nor a descriptor, nor a sequence of descriptors.
\<close>

fun malformed :: "'a out_spec \<Rightarrow> bool" where
  "malformed (Callable f) = False"
| "malformed (Object (ShapedArray sh dt)) = False"
| "malformed (Object (PySeq elems)) = (\<not> list_all is_ShapedArray elems)"
| "malformed (Object (NDArray a)) = True"
| "malformed (Object (PyInt i)) = True"

subsection \<open>Example kernels and evaluators\<close>

text \<open>
  Two anonymous kernels, \<open>lambda outs, ins: ...\<close>, writing \<open>x + 1\<close> and \<open>x + 2\<close>
  into the output buffers; a named kernel; the evaluator \<open>lambda *ins: ins\<close> of
  the module's own example; and the evaluator
  \<open>lambda x: ShapedArray((len(x),), x.dtype)\<close>, which takes the length of its
  argument (a \<open>ShapedArray\<close> has none).
\<close>

definition write_plus :: "int \<Rightarrow> int ndarray list \<Rightarrow> int ndarray list \<Rightarrow> py_error + int ndarray list" where
  "write_plus c outs ins =
     Inr (map (\<lambda>(y, x). Array (shape_of y) (dtype_of y) (map (\<lambda>v. v + c) (data_of x)))
            (zip outs ins))"

definition lambda_plus_one :: "int kernel" where
  "lambda_plus_one =
     \<lparr>kernel_name = ''<lambda>'', is_function = True, is_dispatcher = False,
      run = write_plus 1\<rparr>"

definition lambda_plus_two :: "int kernel" where
  "lambda_plus_two =
     \<lparr>kernel_name = ''<lambda>'', is_function = True, is_dispatcher = False,
      run = write_plus 2\<rparr>"

definition custom_op :: "int kernel" where
  "custom_op =
     \<lparr>kernel_name = ''custom_op'', is_function = True, is_dispatcher = False,
      run = write_plus 1\<rparr>"

definition same_as_inputs :: "int out_spec" where
  "same_as_inputs = Callable (\<lambda>args. Inr (PySeq args))"

definition length_of_input :: "int out_spec" where
  "length_of_input =
     Callable (\<lambda>args. case args of
                 [NDArray a] \<Rightarrow>
                   (case shape_of a of
                      [] \<Rightarrow> Inl TypeError
                    | n # rest \<Rightarrow> Inr (ShapedArray [n] (dtype_of a)))
               | _ \<Rightarrow> Inl TypeError)"

definition vec12 :: "int ndarray" where
  "vec12 = Array [2] Int32 [1, 2]"

text \<open>
  What the rest of either path reads of an evaluator's result: its elements,
  each through \<open>.shape\<close> and \<open>.dtype\<close>.
\<close>

definition described ::
  "py_error + 'a pyobj \<Rightarrow> py_error + ((py_error + shape) \<times> (py_error + dtype)) list" where
  "described r =
     (case r of
        Inl e \<Rightarrow> Inl e
      | Inr shapes \<Rightarrow>
          (case py_iter shapes of
             Inl e \<Rightarrow> Inl e
           | Inr elems \<Rightarrow> Inr (map (\<lambda>x. (attr_shape x, attr_dtype x)) elems)))"

text \<open>Registering an operator and calling it eagerly right away.\<close>

definition call_registered ::
  "'a kernel \<Rightarrow> 'a out_spec \<Rightarrow> 'a ndarray list \<Rightarrow> 'a runtime
     \<Rightarrow> (py_error + ('a::zero) py_result) \<times> 'a runtime" where
  "call_registered func out_shapes inputs st =
     (case register_cpu_op func out_shapes st of
        (Inl e, st1) \<Rightarrow> (Inl e, st1)
      | (Inr op, st1) \<Rightarrow> bind_primitive op inputs st1)"

text \<open>Registering an operator and lowering it twice on the same operand shapes.\<close>

definition lowered_twice ::
  "'a kernel \<Rightarrow> 'a out_spec \<Rightarrow> xla_shape list \<Rightarrow> 'a runtime
     \<Rightarrow> (py_error + call_node \<times> call_node) \<times> 'a runtime" where
  "lowered_twice func out_shapes inputs st =
     (case register_cpu_op func out_shapes st of
        (Inl e, st1) \<Rightarrow> (Inl e, st1)
      | (Inr op, st1) \<Rightarrow>
          (case translation_rule op inputs st1 of
             (Inl e, st2) \<Rightarrow> (Inl e, st2)
           | (Inr node1, st2) \<Rightarrow>
               (case translation_rule op inputs st2 of
                  (Inl e, st3) \<Rightarrow> (Inl e, st3)
                | (Inr node2, st3) \<Rightarrow> (Inr (node1, node2), st3))))"

text \<open>Registering an operator and lowering it once.\<close>

definition lowered_once ::
  "'a kernel \<Rightarrow> 'a out_spec \<Rightarrow> xla_shape list \<Rightarrow> 'a runtime
     \<Rightarrow> (py_error + call_node) \<times> 'a runtime" where
  "lowered_once func out_shapes inputs st =
     (case register_cpu_op func out_shapes st of
        (Inl e, st1) \<Rightarrow> (Inl e, st1)
      | (Inr op, st1) \<Rightarrow> translation_rule op inputs st1)"

text \<open>The name under which a registration result is known, if it is an operator.\<close>

definition registered_name :: "(py_error + 'a operator) \<Rightarrow> string option" where
  "registered_name r = (case r of Inl e \<Rightarrow> None | Inr op \<Rightarrow> Some (prim_name (op_prim op)))"

text \<open>
  The operator and the state that \<open>register_cpu_op(custom_op, lambda *ins: ins)\<close>
  yields in a fresh process, and one operand of shape \<open>(2,)\<close>.
\<close>

definition custom_operator :: "int operator" where
  "custom_operator =
     \<lparr>op_ident = 0,
      op_prim = \<lparr>prim_name = ''custom_op'', multiple_results = True,
                 prim_func = numba_jit custom_op, prim_out_shapes = same_as_inputs\<rparr>\<rparr>"

definition custom_registered :: "int runtime" where
  "custom_registered = snd (register_cpu_op custom_op same_as_inputs runtime_init)"

definition operand2 :: xla_shape where
  "operand2 = \<lparr>dimensions = [2], element_type = Int32\<rparr>"

section \<open>The built-in operators: \<open>brainpy/math/operators.py\<close>\<close>

subsection \<open>Array elements\<close>

text \<open>
  Floating-point numbers are idealised: a finite value is a real number, and
  the values IEEE arithmetic adds to them are kept, since the operators produce
  them (\<open>0/0\<close>, the identity of a maximum) and remove them (\<open>nan_to_num\<close>).
  Rounding and overflow are not modelled.
\<close>

datatype fl = Fin real | PInf | NInf | NaN

fun fadd :: "fl \<Rightarrow> fl \<Rightarrow> fl" where
  "fadd (Fin a) (Fin b) = Fin (a + b)"
| "fadd NaN y = NaN"
| "fadd x NaN = NaN"
| "fadd PInf NInf = NaN"
| "fadd NInf PInf = NaN"
| "fadd PInf y = PInf"
| "fadd x PInf = PInf"
| "fadd NInf y = NInf"
| "fadd x NInf = NInf"



text \<open>An infinity with the sign of a non-zero real.\<close>

definition signed_inf :: "real \<Rightarrow> fl" where
  "signed_inf a = (if 0 < a then PInf else NInf)"

fun fmul :: "fl \<Rightarrow> fl \<Rightarrow> fl" where
  "fmul (Fin a) (Fin b) = Fin (a * b)"
| "fmul NaN y = NaN"
| "fmul x NaN = NaN"
| "fmul (Fin a) PInf = (if a = 0 then NaN else signed_inf a)"
| "fmul (Fin a) NInf = (if a = 0 then NaN else signed_inf (- a))"
| "fmul PInf (Fin b) = (if b = 0 then NaN else signed_inf b)"
| "fmul NInf (Fin b) = (if b = 0 then NaN else signed_inf (- b))"
| "fmul PInf PInf = PInf"
| "fmul NInf NInf = PInf"
| "fmul PInf NInf = NInf"
| "fmul NInf PInf = NInf"

fun fdiv :: "fl \<Rightarrow> fl \<Rightarrow> fl" where
  "fdiv (Fin a) (Fin b) =
     (if b = 0 then (if a = 0 then NaN else signed_inf a) else Fin (a / b))"
| "fdiv NaN y = NaN"
| "fdiv x NaN = NaN"
| "fdiv (Fin a) PInf = Fin 0"
| "fdiv (Fin a) NInf = Fin 0"
| "fdiv PInf (Fin b) = (if b < 0 then NInf else PInf)"
| "fdiv NInf (Fin b) = (if b < 0 then PInf else NInf)"
| "fdiv PInf PInf = NaN"
| "fdiv PInf NInf = NaN"
| "fdiv NInf PInf = NaN"
| "fdiv NInf NInf = NaN"

fun fmax :: "fl \<Rightarrow> fl \<Rightarrow> fl" where
  "fmax (Fin a) (Fin b) = Fin (max a b)"
| "fmax NaN y = NaN"
| "fmax x NaN = NaN"
| "fmax PInf y = PInf"
| "fmax x PInf = PInf"
| "fmax NInf y = y"
| "fmax x NInf = x"

fun fmin :: "fl \<Rightarrow> fl \<Rightarrow> fl" where
  "fmin (Fin a) (Fin b) = Fin (min a b)"
| "fmin NaN y = NaN"
| "fmin x NaN = NaN"
| "fmin NInf y = NInf"
| "fmin x NInf = NInf"
| "fmin PInf y = y"
| "fmin x PInf = x"


text \<open>
  \<open>jnp.nan_to_num\<close>: NaN becomes 0 and an infinity the largest finite value of
  the dtype with its sign (here that of \<open>float32\<close>).
\<close>

definition float_max :: real where
  "float_max = 340282346638528859811704183484516925440"

fun nan_to_num :: "fl \<Rightarrow> fl" where
  "nan_to_num (Fin a) = Fin a"
| "nan_to_num NaN = Fin 0"
| "nan_to_num PInf = Fin float_max"
| "nan_to_num NInf = Fin (- float_max)"

text \<open>
  The arrays handed to the syn-to-post operators: of floats, of 32-bit integers
  (every element within the int32 range) or of booleans.
\<close>

datatype arr = FloatArr "fl list" | IntArr "int list" | BoolArr "bool list"

text \<open>
  Arithmetic on \<open>int32\<close> wraps around: a result is reduced modulo \<open>2^32\<close> into
  the range from \<open>-2^31\<close> up to, but not including, \<open>2^31\<close>.
\<close>

definition wrap32 :: "int \<Rightarrow> int" where
  "wrap32 x = (x + 2147483648) mod 4294967296 - 2147483648"

definition iadd32 :: "int \<Rightarrow> int \<Rightarrow> int" where
  "iadd32 a b = wrap32 (a + b)"



text \<open>
  \<open>if syn_values.dtype == jnp.bool_: syn_values = jnp.asarray(syn_values, dtype=jnp.int32)\<close>:
  after this statement an operator computes with floats or with \<open>int32\<close>.
\<close>

datatype numeric = Floats "fl list" | Int32s "int list"

fun promote_bool :: "arr \<Rightarrow> numeric" where
  "promote_bool (BoolArr bs) = Int32s (map (\<lambda>b. if b then 1 else 0) bs)"
| "promote_bool (FloatArr xs) = Floats xs"
| "promote_bool (IntArr xs) = Int32s xs"

text \<open>The float an \<open>int32\<close> is converted to, where an operation yields floats.\<close>

definition to_float :: "int \<Rightarrow> fl" where
  "to_float i = Fin (of_int i)"

text \<open>A value that is a scalar (\<open>jnp.ndim(x) == 0\<close>) or a one-dimensional array.\<close>

datatype pyvalue = Scalar fl | Vector "fl list"

subsection \<open>The JAX operations the operators are built from\<close>

text \<open>
  These are library operations, modelled by the loops the operators' docstrings
  give for them.  \<open>scatter_with f out ids vs\<close> is \<open>out.at[ids].add(vs)\<close>,
  \<open>.multiply\<close>, \<open>.min\<close>, \<open>.max\<close> or \<open>.set\<close>, according to \<open>f\<close>: for each
  position \<open>k\<close> in turn, \<open>out[ids[k]] = f(out[ids[k]], vs[k])\<close>; an update whose
  index is out of range is dropped.
\<close>

fun scatter_with :: "('a \<Rightarrow> 'a \<Rightarrow> 'a) \<Rightarrow> 'a list \<Rightarrow> nat list \<Rightarrow> 'a list \<Rightarrow> 'a list" where
  "scatter_with f out [] vs = out"
| "scatter_with f out (i # ids) [] = out"
| "scatter_with f out (i # ids) (v # vs) =
     scatter_with f (if i < length out then out[i := f (out ! i) v] else out) ids vs"

text \<open>
  \<open>xs[ids]\<close>: an index out of range is clamped to the last position.  An empty
  array has no last position; the model then yields NaN.  Every theorem below
  reads within range.
\<close>

definition gather :: "fl list \<Rightarrow> nat list \<Rightarrow> fl list" where
  "gather xs ids =
     map (\<lambda>i. if i < length xs then xs ! i else if xs = [] then NaN else last xs) ids"


text \<open>
  The updates of \<open>out.at[ids].op(vs)\<close> are broadcast to the shape of \<open>ids\<close>: an
  array of that length is taken as it is, one of length 1 is repeated, any other
  is refused.
\<close>

definition broadcast_to :: "'a list \<Rightarrow> nat \<Rightarrow> py_error + 'a list" where
  "broadcast_to vs n =
     (if length vs = n then Inr vs
      else if length vs = 1 then Inr (replicate n (hd vs))
      else Inl ValueError)"

text \<open>
  An elementwise operation \<open>xs op ys\<close> on two one-dimensional arrays: of equal
  lengths, or one of them of length 1 and repeated; any other pair is refused.
\<close>

definition elementwise :: "('a \<Rightarrow> 'b \<Rightarrow> 'c) \<Rightarrow> 'a list \<Rightarrow> 'b list \<Rightarrow> py_error + 'c list" where
  "elementwise f xs ys =
     (if length xs = length ys then Inr (map2 f xs ys)
      else if length xs = 1 then Inr (map (f (hd xs)) ys)
      else if length ys = 1 then Inr (map (\<lambda>x. f x (hd ys)) xs)
      else Inl ValueError)"

text \<open>
  \<open>jax.ops.segment_sum(data, segment_ids, num_segments, indices_are_sorted)\<close>
  and \<open>segment_max\<close>: the data are scattered by the ids, with the operation
  \<open>f\<close>, onto \<open>num\<close> cells that hold the operation's identity \<open>e\<close> for the
  data's dtype.  The flag \<open>indices_are_sorted\<close> is the caller's promise that the
  ids are in ascending order.  The result modelled here is that of a call which
  keeps the promise, or passes \<open>False\<close>; what a backend makes of a broken promise
  is not modelled.
\<close>

definition segment_reduce ::
  "('a \<Rightarrow> 'a \<Rightarrow> 'a) \<Rightarrow> 'a \<Rightarrow> 'a list \<Rightarrow> nat list \<Rightarrow> nat \<Rightarrow> bool \<Rightarrow> py_error + 'a list" where
  "segment_reduce f e data ids num indices_are_sorted =
     (case broadcast_to data (length ids) of
        Inl err \<Rightarrow> Inl err
      | Inr updates \<Rightarrow> Inr (scatter_with f (replicate num e) ids updates))"

definition segment_sum :: "fl list \<Rightarrow> nat list \<Rightarrow> nat \<Rightarrow> bool \<Rightarrow> py_error + fl list" where
  "segment_sum = segment_reduce fadd (Fin 0)"


definition segment_sum_int32 :: "int list \<Rightarrow> nat list \<Rightarrow> nat \<Rightarrow> bool \<Rightarrow> py_error + int list" where
  "segment_sum_int32 = segment_reduce iadd32 0"


text \<open>\<open>jnp.unique(ids)\<close>: the distinct elements in ascending order.\<close>

definition unique :: "nat list \<Rightarrow> nat list" where
  "unique ids = sort (remdups ids)"

subsection \<open>Syn-to-post operators\<close>

text \<open>\<open>jnp.nan_to_num(nominator / denominator)\<close>, on floats.\<close>

definition nan_to_num_quotient :: "fl list \<Rightarrow> fl list \<Rightarrow> py_error + fl list" where
  "nan_to_num_quotient nominator denominator =
     (case elementwise fdiv nominator denominator of
        Inl e \<Rightarrow> Inl e
      | Inr q \<Rightarrow> Inr (map nan_to_num q))"

text \<open>
  \<open>syn2post_mean\<close>: the segment sum of the values over the segment sum of ones,
  then \<open>nan_to_num\<close>.  On \<open>int32\<close> both sums are \<open>int32\<close> sums, and the
  division converts them to floats.  The last parameter is
  \<open>indices_are_sorted\<close>, \<open>True\<close> when the caller leaves it out.
\<close>

definition syn2post_mean :: "arr \<Rightarrow> nat list \<Rightarrow> nat \<Rightarrow> bool \<Rightarrow> py_error + fl list" where
  "syn2post_mean syn_values post_ids post_num indices_are_sorted =
     (case promote_bool syn_values of
        Floats vals \<Rightarrow>
          (case segment_sum vals post_ids post_num indices_are_sorted of
             Inl e \<Rightarrow> Inl e
           | Inr nominator \<Rightarrow>
               (case segment_sum (map (\<lambda>v. Fin 1) vals) post_ids post_num
                       indices_are_sorted of
                  Inl e \<Rightarrow> Inl e
                | Inr denominator \<Rightarrow> nan_to_num_quotient nominator denominator))
      | Int32s vals \<Rightarrow>
          (case segment_sum_int32 vals post_ids post_num indices_are_sorted of
             Inl e \<Rightarrow> Inl e
           | Inr nominator \<Rightarrow>
               (case segment_sum_int32 (map (\<lambda>v. 1) vals) post_ids post_num
                       indices_are_sorted of
                  Inl e \<Rightarrow> Inl e
                | Inr denominator \<Rightarrow>
                    nan_to_num_quotient (map to_float nominator) (map to_float denominator))))"



subsection \<open>Pre-to-post operators\<close>

text \<open>\<open>_raise_pre_ids_is_none\<close>, returning the ids when it does not raise.\<close>

definition raise_pre_ids_is_none :: "nat list option \<Rightarrow> py_error + nat list" where
  "raise_pre_ids_is_none pre_ids =
     (case pre_ids of None \<Rightarrow> Inl MathError | Some ids \<Rightarrow> Inr ids)"

text \<open>
  The common body of \<open>pre2post_sum\<close>, \<open>pre2post_prod\<close>, \<open>pre2post_min\<close> and
  \<open>pre2post_max\<close>, which differ in the update only: \<open>out\<close> is
  \<open>jnp.zeros(post_num)\<close> in all four.
\<close>

definition pre2post_with ::
  "(fl \<Rightarrow> fl \<Rightarrow> fl) \<Rightarrow> pyvalue \<Rightarrow> nat \<Rightarrow> nat list \<Rightarrow> nat list option \<Rightarrow> py_error + fl list" where
  "pre2post_with f pre_values post_num post_ids pre_ids =
     (let out = replicate post_num (Fin 0) in
      case pre_values of
        Scalar v \<Rightarrow> Inr (scatter_with f out post_ids (replicate (length post_ids) v))
      | Vector vs \<Rightarrow>
          (case raise_pre_ids_is_none pre_ids of
             Inl e \<Rightarrow> Inl e
           | Inr ids \<Rightarrow>
               (case broadcast_to (gather vs ids) (length post_ids) of
                  Inl e \<Rightarrow> Inl e
                | Inr ws \<Rightarrow> Inr (scatter_with f out post_ids ws))))"

definition pre2post_sum :: "pyvalue \<Rightarrow> nat \<Rightarrow> nat list \<Rightarrow> nat list option \<Rightarrow> py_error + fl list" where
  "pre2post_sum = pre2post_with fadd"

definition pre2post_prod :: "pyvalue \<Rightarrow> nat \<Rightarrow> nat list \<Rightarrow> nat list option \<Rightarrow> py_error + fl list" where
  "pre2post_prod = pre2post_with fmul"

definition pre2post_min :: "pyvalue \<Rightarrow> nat \<Rightarrow> nat list \<Rightarrow> nat list option \<Rightarrow> py_error + fl list" where
  "pre2post_min = pre2post_with fmin"

definition pre2post_max :: "pyvalue \<Rightarrow> nat \<Rightarrow> nat list \<Rightarrow> nat list option \<Rightarrow> py_error + fl list" where
  "pre2post_max = pre2post_with fmax"

text \<open>\<open>pre2syn\<close>: a scalar is repeated for every synapse, an array is gathered.\<close>

definition pre2syn :: "pyvalue \<Rightarrow> nat list \<Rightarrow> fl list" where
  "pre2syn pre_values pre_ids =
     (case pre_values of
        Scalar v \<Rightarrow> map (\<lambda>w. fmul w v) (replicate (length pre_ids) (Fin 1))
      | Vector vs \<Rightarrow> gather vs pre_ids)"

text \<open>
  \<open>pre2post_mean\<close>: a scalar is stored once at each distinct post id; an array
  needs \<open>pre_ids\<close>, is brought to the synapses and averaged per post id.
\<close>

definition pre2post_mean :: "pyvalue \<Rightarrow> nat \<Rightarrow> nat list \<Rightarrow> nat list option \<Rightarrow> py_error + fl list" where
  "pre2post_mean pre_values post_num post_ids pre_ids =
     (let out = replicate post_num (Fin 0) in
      case pre_values of
        Scalar v \<Rightarrow>
          Inr (scatter_with (\<lambda>old new. new) out (unique post_ids)
                 (replicate (length (unique post_ids)) v))
      | Vector vs \<Rightarrow>
          (case raise_pre_ids_is_none pre_ids of
             Inl e \<Rightarrow> Inl e
           | Inr ids \<Rightarrow>
               syn2post_mean (FloatArr (pre2syn (Vector vs) ids)) post_ids post_num True))"

text \<open>
  The specification's \<open>directed_reduce(op, ...)\<close> names these five functions.
\<close>

datatype reduce_op = OpSum | OpProd | OpMin | OpMax | OpMean

fun directed_reduce ::
  "reduce_op \<Rightarrow> pyvalue \<Rightarrow> nat \<Rightarrow> nat list \<Rightarrow> nat list option \<Rightarrow> py_error + fl list" where
  "directed_reduce OpSum = pre2post_sum"
| "directed_reduce OpProd = pre2post_prod"
| "directed_reduce OpMin = pre2post_min"
| "directed_reduce OpMax = pre2post_max"
| "directed_reduce OpMean = pre2post_mean"

text \<open>
  The specification's own \<open>scatter_reduce(op, values, group_ids, group_count)\<close>:
  every value is combined into the cell of its group, and a cell starts from the
  identity of the operation: 0 for sum, 1 for prod, \<open>+\<infinity>\<close> for min and
  \<open>-\<infinity>\<close> for max.  The mean is the scattered sum of the values over the
  scattered sum of ones, with \<open>0/0\<close> taken to 0.
\<close>

fun scatter_reduce :: "reduce_op \<Rightarrow> fl list \<Rightarrow> nat list \<Rightarrow> nat \<Rightarrow> fl list" where
  "scatter_reduce OpSum vals ids n = scatter_with fadd (replicate n (Fin 0)) ids vals"
| "scatter_reduce OpProd vals ids n = scatter_with fmul (replicate n (Fin 1)) ids vals"
| "scatter_reduce OpMin vals ids n = scatter_with fmin (replicate n PInf) ids vals"
| "scatter_reduce OpMax vals ids n = scatter_with fmax (replicate n NInf) ids vals"
| "scatter_reduce OpMean vals ids n =
     map nan_to_num
       (map2 fdiv (scatter_with fadd (replicate n (Fin 0)) ids vals)
          (scatter_with fadd (replicate n (Fin 0)) ids (map (\<lambda>v. Fin 1) vals)))"

text \<open>
  The specification's \<open>directed_reduce\<close>: a scalar is scattered directly by
  \<open>post_ids\<close>; an array requires \<open>pre_ids\<close>, is gathered as
  \<open>pre_values[pre_ids]\<close> and then scattered by \<open>post_ids\<close> using \<open>op\<close>.
\<close>

definition directed_reduce_spec ::
  "reduce_op \<Rightarrow> pyvalue \<Rightarrow> nat \<Rightarrow> nat list \<Rightarrow> nat list option \<Rightarrow> py_error + fl list" where
  "directed_reduce_spec op pre_values post_count post_ids pre_ids =
     (case pre_values of
        Scalar v \<Rightarrow> Inr (scatter_reduce op (replicate (length post_ids) v) post_ids post_count)
      | Vector vs \<Rightarrow>
          (case pre_ids of
             None \<Rightarrow> Inl MathError
           | Some ids \<Rightarrow> Inr (scatter_reduce op (gather vs ids) post_ids post_count)))"

text \<open>
  The values of one group and their number, as the specification speaks of them:
  the values at the positions whose id is \<open>g\<close>.
\<close>

definition group_values :: "'v list \<Rightarrow> nat list \<Rightarrow> nat \<Rightarrow> 'v list" where
  "group_values vs ids g = map snd (filter (\<lambda>p. fst p = g) (zip ids vs))"



subsection \<open>Event-driven operators\<close>

text \<open>
  The module global \<open>brainpylib\<close>: \<open>None\<close> when the import failed, else the
  extension with its version string and its two operators, which are code of the
  extension and taken as given.
\<close>

record extension =
  ext_version :: string
  event_sum :: "bool list \<Rightarrow> nat list \<times> nat list \<Rightarrow> nat \<Rightarrow> pyvalue \<Rightarrow> py_error + fl list"
  event_prod :: "bool list \<Rightarrow> nat list \<times> nat list \<Rightarrow> nat \<Rightarrow> pyvalue \<Rightarrow> py_error + fl list"

definition BRAINPYLIB_MINIMAL_VERSION :: string where
  "BRAINPYLIB_MINIMAL_VERSION = ''0.0.3''"

text \<open>\<open>_check_brainpylib\<close>: the exception it raises, if any.\<close>

definition check_brainpylib :: "extension option \<Rightarrow> py_error option" where
  "check_brainpylib brainpylib =
     (case brainpylib of
        Some lib \<Rightarrow>
          (if str_lt (ext_version lib) BRAINPYLIB_MINIMAL_VERSION
           then Some PackageMissingError else None)
      | None \<Rightarrow> Some PackageMissingError)"

definition pre2post_event_sum ::
  "extension option \<Rightarrow> bool list \<Rightarrow> nat list \<times> nat list \<Rightarrow> nat \<Rightarrow> pyvalue
     \<Rightarrow> py_error + fl list" where
  "pre2post_event_sum brainpylib events pre2post post_num vals =
     (case check_brainpylib brainpylib of
        Some e \<Rightarrow> Inl e
      | None \<Rightarrow>
          (case brainpylib of
             None \<Rightarrow> Inl AttributeError
           | Some lib \<Rightarrow> event_sum lib events pre2post post_num vals))"

definition pre2post_event_prod ::
  "extension option \<Rightarrow> bool list \<Rightarrow> nat list \<times> nat list \<Rightarrow> nat \<Rightarrow> pyvalue
     \<Rightarrow> py_error + fl list" where
  "pre2post_event_prod brainpylib events pre2post post_num vals =
     (case check_brainpylib brainpylib of
        Some e \<Rightarrow> Inl e
      | None \<Rightarrow>
          (case brainpylib of
             None \<Rightarrow> Inl AttributeError
           | Some lib \<Rightarrow> event_prod lib events pre2post post_num vals))"

text \<open>
  Versions as the specification has them: a semantic version is a list of
  numbers, written with dots, and one is older than another when it comes first
  in the numeric lexicographic order.
\<close>

fun semver_lt :: "nat list \<Rightarrow> nat list \<Rightarrow> bool" where
  "semver_lt [] [] = False"
| "semver_lt [] (b # bs) = True"
| "semver_lt (a # as) [] = False"
| "semver_lt (a # as) (b # bs) = (a < b \<or> (a = b \<and> semver_lt as bs))"

fun version_string :: "nat list \<Rightarrow> string" where
  "version_string [] = []"
| "version_string [a] = str_nat a"
| "version_string (a # b # bs) = str_nat a @ ''.'' @ version_string (b # bs)"

section \<open>Properties of the extension loader\<close>

lemma str_lt_old_version: "str_lt ''0.1.0'' ''0.1.10''"
  by simp

lemma old_pkg_cpu_ops:
  "cpu_ops old_pkg = Some \<lparr>registrations = [(''cpu_event_sum'', 1)]\<rparr>"
  by (simp add: old_pkg_def)

lemma version_checks_old_pkg: "version_checks old_pkg = Some SystemError"
  by (simp add: version_checks_def old_pkg_def minimal_brainpylib_version_def)

text \<open>
  When the library is absent the call raises \<open>ImportError\<close> and leaves every
  global as it was, so the next call tries the import again.
\<close>

lemma import_cpu_absent:
  "brainpylib_cpu_ops s = None \<Longrightarrow> import_brainpylib_cpu_ops None s = (Inl ImportError, s)"
  by (simp add: import_brainpylib_cpu_ops_def)

lemma import_gpu_absent:
  "brainpylib_gpu_ops s = None \<Longrightarrow> import_brainpylib_gpu_ops None s = (Inl ImportError, s)"
  by (simp add: import_brainpylib_gpu_ops_def)

text \<open>
  The version test is one on strings: release \<open>0.1.9\<close>, older than the minimum
  \<open>0.1.10\<close>, passes it.
\<close>

lemma older_release_passes_version_test:
  "version_checks (old_pkg\<lparr>version := ''0.1.9''\<rparr>) = None"
  by (simp add: version_checks_def old_pkg_def minimal_brainpylib_version_def)

text \<open>
  C2 (extension-load atomicity), evaluated at the failing input.  With a
  library of version \<open>0.1.0\<close> installed, the first call of
  \<open>import_brainpylib_cpu_ops\<close> raises \<open>SystemError\<close>, yet it leaves the global
  bound to the module and the module's symbol registered; the second call then
  returns that module without raising.  The claim asks for the opposite: that a
  call which raises caches no handle and that the next call fails the same way.
\<close>

theorem import_cpu_old_version_cached:
  "fst (import_brainpylib_cpu_ops (Some old_pkg) loader_init) = Inl SystemError
   \<and> brainpylib_cpu_ops (snd (import_brainpylib_cpu_ops (Some old_pkg) loader_init))
       = cpu_ops old_pkg
   \<and> call_targets (snd (import_brainpylib_cpu_ops (Some old_pkg) loader_init))
       = [(''cpu_event_sum'', 1, ''cpu'')]
   \<and> fst (import_brainpylib_cpu_ops (Some old_pkg)
            (snd (import_brainpylib_cpu_ops (Some old_pkg) loader_init)))
       = Inr \<lparr>registrations = [(''cpu_event_sum'', 1)]\<rparr>"
proof -
  have first: "import_brainpylib_cpu_ops (Some old_pkg) loader_init =
      (Inl SystemError,
       \<lparr>brainpylib_cpu_ops = Some \<lparr>registrations = [(''cpu_event_sum'', 1)]\<rparr>,
        brainpylib_gpu_ops = None,
        call_targets = [(''cpu_event_sum'', 1, ''cpu'')]\<rparr>)"
    by (simp add: import_brainpylib_cpu_ops_def loader_init_def version_checks_old_pkg
        old_pkg_cpu_ops register_items_def)
  show ?thesis
    unfolding first by (simp add: import_brainpylib_cpu_ops_def old_pkg_cpu_ops)
qed

section \<open>Properties of the operator registry\<close>

subsection \<open>Registration\<close>

lemma register_cpu_op_keeps_lambda_no:
  "lambda_no (snd (register_cpu_op func out_shapes st)) = lambda_no st"
  by (simp add: register_cpu_op_def Let_def)

lemma run_numba_jit: "run (numba_jit func) = run func"
  by (simp add: numba_jit_def)

lemma register_cpu_op_result:
  "fst (register_cpu_op func out_shapes st) =
     Inr \<lparr>op_ident = length (primitives st),
          op_prim = \<lparr>prim_name = primitive_name func st, multiple_results = True,
                     prim_func = (if is_dispatcher func then func else numba_jit func),
                     prim_out_shapes = out_shapes\<rparr>\<rparr>"
  by (simp add: register_cpu_op_def Let_def)

text \<open>
  Every anonymous kernel is named from \<open>_lambda_no\<close>, which no registration
  changes.
\<close>

lemma primitive_name_lambda:
  "is_function func \<Longrightarrow> kernel_name func = ''<lambda>'' \<Longrightarrow>
     primitive_name func st = ''_lambda_func'' @ str_nat (lambda_no st)"
  by (simp add: primitive_name_def)

lemma custom_registered_op:
  "fst (register_cpu_op custom_op same_as_inputs runtime_init) = Inr custom_operator"
  by (simp add: register_cpu_op_result custom_operator_def runtime_init_def
      primitive_name_def custom_op_def)

lemma custom_registered_fields:
  "compilations custom_registered = []"
  "custom_call_targets custom_registered = []"
  "cpu_translations custom_registered 0 = Some (numba_jit custom_op, same_as_inputs)"
  by (simp_all add: custom_registered_def register_cpu_op_def Let_def runtime_init_def
      custom_op_def)

lemma abs_eval_same_as_inputs:
  "abs_eval_rule same_as_inputs args = Inr (PySeq args)"
  by (simp add: abs_eval_rule_def same_as_inputs_def)

subsection \<open>Eager calls\<close>

lemma bind_primitive_fst:
  "fst (bind_primitive op inputs st) =
     map_sum id unwrap (eval_rule (prim_func (op_prim op)) (prim_out_shapes (op_prim op)) inputs)"
  by (simp add: bind_primitive_def split: sum.splits)

lemma bind_primitive_snd: "snd (bind_primitive op inputs st) = st"
  by (simp add: bind_primitive_def split: sum.splits)

lemma eval_rule_run_cong:
  "run func' = run func \<Longrightarrow>
     eval_rule func' out_shapes inputs = eval_rule func out_shapes inputs"
  by (simp add: eval_rule_def split: sum.splits)

lemma call_registered_fst:
  "fst (call_registered func out_shapes inputs st)
     = map_sum id unwrap (eval_rule func out_shapes inputs)"
proof -
  have r: "run (if is_dispatcher func then func else numba_jit func) = run func"
    by (simp add: run_numba_jit)
  have "fst (call_registered func out_shapes inputs st)
     = map_sum id unwrap
         (eval_rule (if is_dispatcher func then func else numba_jit func) out_shapes inputs)"
    by (simp add: call_registered_def register_cpu_op_def Let_def bind_primitive_fst)
  also have "\<dots> = map_sum id unwrap (eval_rule func out_shapes inputs)"
    by (simp only: eval_rule_run_cong [OF r])
  finally show ?thesis .
qed

lemma run_custom_op_vec12:
  "run custom_op [np_zeros [2] Int32] [vec12] = Inr [Array [2] Int32 [2, 3]]"
  by (simp add: custom_op_def write_plus_def np_zeros_def vec12_def)

text \<open>
  Two anonymous kernels registered one after the other are still called
  separately: each operator holds its own primitive object.
\<close>

lemma anonymous_kernels_called:
  "fst (call_registered lambda_plus_one same_as_inputs [vec12] runtime_init)
     = Inr (Single (Array [2] Int32 [2, 3]))
   \<and> fst (call_registered lambda_plus_two same_as_inputs [vec12]
        (snd (register_cpu_op lambda_plus_one same_as_inputs runtime_init)))
     = Inr (Single (Array [2] Int32 [3, 4]))"
  by (simp add: call_registered_fst eval_rule_def abs_eval_same_as_inputs
        lambda_plus_one_def lambda_plus_two_def write_plus_def np_zeros_def vec12_def unwrap_def)

text \<open>
  C1 (registry ids of anonymous kernels), evaluated at the failing input.  Two
  different lambdas are registered in a fresh process.  Both primitives get the
  id \<open>_lambda_func0\<close>, and \<open>_lambda_no\<close> is still 0 afterwards, although the two
  kernels compute different results.  The claim asks for two distinct ids.
\<close>

theorem anonymous_kernels_share_id:
  "registered_name (fst (register_cpu_op lambda_plus_one same_as_inputs runtime_init))
     = Some ''_lambda_func0''
   \<and> registered_name (fst (register_cpu_op lambda_plus_two same_as_inputs
         (snd (register_cpu_op lambda_plus_one same_as_inputs runtime_init))))
     = Some ''_lambda_func0''
   \<and> lambda_no (snd (register_cpu_op lambda_plus_two same_as_inputs
         (snd (register_cpu_op lambda_plus_one same_as_inputs runtime_init)))) = 0
   \<and> run lambda_plus_one [np_zeros [2] Int32] [vec12]
       \<noteq> run lambda_plus_two [np_zeros [2] Int32] [vec12]"
proof -
  have n1: "primitive_name lambda_plus_one st = ''_lambda_func'' @ str_nat (lambda_no st)"
    for st :: "int runtime"
    by (rule primitive_name_lambda) (simp_all add: lambda_plus_one_def)
  have n2: "primitive_name lambda_plus_two st = ''_lambda_func'' @ str_nat (lambda_no st)"
    for st :: "int runtime"
    by (rule primitive_name_lambda) (simp_all add: lambda_plus_two_def)
  have l0: "lambda_no (runtime_init :: int runtime) = 0"
    by (simp add: runtime_init_def)
  have a: "registered_name (fst (register_cpu_op lambda_plus_one same_as_inputs runtime_init))
     = Some ''_lambda_func0''"
    by (simp add: register_cpu_op_result registered_name_def n1 l0 digit_char_def)
  have b: "registered_name (fst (register_cpu_op lambda_plus_two same_as_inputs
         (snd (register_cpu_op lambda_plus_one same_as_inputs runtime_init))))
     = Some ''_lambda_func0''"
    by (simp add: register_cpu_op_result registered_name_def n2 l0 digit_char_def
        register_cpu_op_keeps_lambda_no)
  have c: "lambda_no (snd (register_cpu_op lambda_plus_two same_as_inputs
         (snd (register_cpu_op lambda_plus_one same_as_inputs runtime_init)))) = 0"
    by (simp add: register_cpu_op_keeps_lambda_no l0)
  have d: "run lambda_plus_one [np_zeros [2] Int32] [vec12]
       \<noteq> run lambda_plus_two [np_zeros [2] Int32] [vec12]"
    by (simp add: lambda_plus_one_def lambda_plus_two_def write_plus_def np_zeros_def vec12_def)
  from a b c d show ?thesis by blast
qed

subsection \<open>Malformed \<open>out_shapes\<close>\<close>

lemma abs_eval_rule_malformed:
  "malformed out_shapes \<Longrightarrow> abs_eval_rule out_shapes args = Inl ValueError"
  by (induction out_shapes rule: malformed.induct) (simp_all add: abs_eval_rule_def)

lemma bind_primitive_malformed:
  "malformed (prim_out_shapes (op_prim op)) \<Longrightarrow>
     bind_primitive op inputs s = (Inl ValueError, s)"
  by (simp add: bind_primitive_def eval_rule_def abs_eval_rule_malformed)

lemma func_translation_malformed:
  "malformed out_shapes \<Longrightarrow>
     func_translation func out_shapes opnds st = (Inl ValueError, st)"
  by (simp add: func_translation_def abs_eval_rule_malformed)

text \<open>
  C4 as stated fails: \<open>register_cpu_op(custom_op, 5)\<close> is given an \<open>out_shapes\<close>
  that is neither a callable, nor a descriptor, nor a sequence of descriptors,
  and it returns an operator named \<open>custom_op\<close> without raising.  The
  \<open>ValueError\<close> appears when the operator is called.
\<close>

theorem register_malformed_out_shapes_succeeds:
  "malformed (Object (PyInt 5) :: int out_spec)
   \<and> \<not> isl (fst (register_cpu_op custom_op (Object (PyInt 5)) runtime_init))
   \<and> registered_name (fst (register_cpu_op custom_op (Object (PyInt 5)) runtime_init))
       = Some ''custom_op''
   \<and> fst (call_registered custom_op (Object (PyInt 5)) [vec12] runtime_init) = Inl ValueError"
  by (simp add: register_cpu_op_result registered_name_def primitive_name_def custom_op_def
      call_registered_fst eval_rule_def abs_eval_rule_def)

text \<open>
  C4, amended.  For every kernel and every process state, registering with a
  malformed \<open>out_shapes\<close> succeeds and returns an operator; every eager call of
  that operator, on any inputs and in any state, raises \<open>ValueError\<close> and leaves
  the state as it was, and so does every lowering of it.  The check is made by
  \<open>abs_eval_rule\<close> each time the operator is used, not by \<open>register_cpu_op\<close>.
\<close>

theorem malformed_out_shapes_fail_when_called:
  assumes "malformed out_shapes"
  shows "\<exists>op. fst (register_cpu_op func out_shapes st) = Inr op
     \<and> (\<forall>inputs s. bind_primitive op inputs s = (Inl ValueError, s))
     \<and> (\<forall>opnds.
          translation_rule op opnds (snd (register_cpu_op func out_shapes st))
            = (Inl ValueError, snd (register_cpu_op func out_shapes st)))"
proof -
  let ?op = "\<lparr>op_ident = length (primitives st),
          op_prim = \<lparr>prim_name = primitive_name func st, multiple_results = True,
                     prim_func = (if is_dispatcher func then func else numba_jit func),
                     prim_out_shapes = out_shapes\<rparr>\<rparr>"
  have "fst (register_cpu_op func out_shapes st) = Inr ?op"
    by (rule register_cpu_op_result)
  moreover have "bind_primitive ?op inputs s = (Inl ValueError, s)" for inputs s
    using assms by (simp add: bind_primitive_malformed)
  moreover have "translation_rule ?op opnds (snd (register_cpu_op func out_shapes st))
            = (Inl ValueError, snd (register_cpu_op func out_shapes st))" for opnds
    using assms
    by (simp add: translation_rule_def register_cpu_op_def Let_def func_translation_malformed)
  ultimately show ?thesis by blast
qed

text \<open>The amended C4 at \<open>register_cpu_op(custom_op, 5)\<close>.\<close>

theorem malformed_out_shapes_fail_when_called_witness:
  "malformed (Object (PyInt 5) :: int out_spec)
   \<and> (\<exists>op. fst (register_cpu_op custom_op (Object (PyInt 5)) runtime_init) = Inr op
        \<and> (\<forall>inputs s. bind_primitive op inputs s = (Inl ValueError, s)))"
proof -
  have m: "malformed (Object (PyInt 5) :: int out_spec)" by simp
  from malformed_out_shapes_fail_when_called [OF m, of custom_op runtime_init] m
  show ?thesis by blast
qed

subsection \<open>The eager path\<close>

lemma alloc_outputs_cong:
  "map (\<lambda>x. (attr_shape x, attr_dtype x)) xs = map (\<lambda>x. (attr_shape x, attr_dtype x)) ys
     \<Longrightarrow> alloc_outputs xs = alloc_outputs ys"
proof (induction xs arbitrary: ys)
  case Nil
  then show ?case by simp
next
  case (Cons x xs)
  then obtain y ys' where ys: "ys = y # ys'" by (cases ys) auto
  with Cons.prems have "attr_shape x = attr_shape y" "attr_dtype x = attr_dtype y"
    and "map (\<lambda>x. (attr_shape x, attr_dtype x)) xs = map (\<lambda>x. (attr_shape x, attr_dtype x)) ys'"
    by simp_all
  with Cons.IH [of ys'] ys show ?case by (auto split: sum.splits)
qed

lemma alloc_outputs_collect:
  "collect attr_shape elems = Inr shs \<Longrightarrow> collect attr_dtype elems = Inr dts \<Longrightarrow>
     alloc_outputs elems = Inr (map2 np_zeros shs dts)"
proof (induction elems arbitrary: shs dts)
  case Nil
  then show ?case by simp
next
  case (Cons x xs)
  then show ?case by (auto split: sum.splits)
qed

lemma eval_rule_described:
  assumes "described (abs_eval_rule out_shapes (map NDArray inputs))
         = described (abs_eval_rule out_shapes (map descriptor inputs))"
  shows "map_sum id unwrap (eval_rule func out_shapes inputs)
         = eager_procedure func out_shapes inputs"
  using assms
  by (auto simp: described_def eval_rule_def eager_procedure_def
      split: sum.splits dest: alloc_outputs_cong)

text \<open>
  What an eager call does, for every operator that \<open>register_cpu_op\<close> returns.
  It leaves the process-wide state as it was.  The abstract rule is run on the
  concrete inputs themselves; when it returns objects with shapes \<open>shs\<close> and
  dtypes \<open>dts\<close>, the result is what the kernel makes of zero-initialised buffers
  of these shapes and dtypes and the inputs, unwrapped when there is exactly one
  output and a tuple otherwise, or the kernel's exception.  Whenever the rule's
  result, read through \<open>.shape\<close> and \<open>.dtype\<close>, is the same on the inputs as on
  their descriptors, the call equals the procedure of the specification.
\<close>

theorem eager_execution:
  assumes reg: "fst (register_cpu_op func out_shapes st0) = Inr op"
  shows "snd (bind_primitive op inputs st) = st
     \<and> (\<forall>shapes elems shs dts.
          abs_eval_rule out_shapes (map NDArray inputs) = Inr shapes \<longrightarrow>
          py_iter shapes = Inr elems \<longrightarrow>
          collect attr_shape elems = Inr shs \<longrightarrow>
          collect attr_dtype elems = Inr dts \<longrightarrow>
          fst (bind_primitive op inputs st)
            = map_sum id unwrap (run func (map2 np_zeros shs dts) inputs))
     \<and> (described (abs_eval_rule out_shapes (map NDArray inputs))
          = described (abs_eval_rule out_shapes (map descriptor inputs)) \<longrightarrow>
        fst (bind_primitive op inputs st) = eager_procedure func out_shapes inputs)"
proof -
  from reg have op: "prim_out_shapes (op_prim op) = out_shapes"
      "run (prim_func (op_prim op)) = run func"
    by (auto simp: register_cpu_op_result run_numba_jit)
  have e: "fst (bind_primitive op inputs st) = map_sum id unwrap (eval_rule func out_shapes inputs)"
    by (simp add: bind_primitive_fst op eval_rule_run_cong [OF op(2)])
  have a: "snd (bind_primitive op inputs st) = st"
    by (rule bind_primitive_snd)
  have b: "fst (bind_primitive op inputs st)
            = map_sum id unwrap (run func (map2 np_zeros shs dts) inputs)"
    if "abs_eval_rule out_shapes (map NDArray inputs) = Inr shapes"
       "py_iter shapes = Inr elems" "collect attr_shape elems = Inr shs"
       "collect attr_dtype elems = Inr dts" for shapes elems shs dts
    using that by (simp add: e eval_rule_def alloc_outputs_collect)
  have c: "fst (bind_primitive op inputs st) = eager_procedure func out_shapes inputs"
    if "described (abs_eval_rule out_shapes (map NDArray inputs))
          = described (abs_eval_rule out_shapes (map descriptor inputs))"
    using that by (simp add: e eval_rule_described)
  from a b c show ?thesis by blast
qed

text \<open>
  The module's own example: \<open>custom_op\<close> with the evaluator \<open>lambda *ins: ins\<close>,
  called on \<open>[1, 2]\<close>.
\<close>

theorem eager_execution_witness:
  "fst (register_cpu_op custom_op same_as_inputs runtime_init) = Inr custom_operator
   \<and> snd (bind_primitive custom_operator [vec12] custom_registered) = custom_registered
   \<and> fst (bind_primitive custom_operator [vec12] custom_registered)
       = Inr (Single (Array [2] Int32 [2, 3]))
   \<and> fst (bind_primitive custom_operator [vec12] custom_registered)
       = eager_procedure custom_op same_as_inputs [vec12]"
proof -
  note w = eager_execution [OF custom_registered_op, of "[vec12]" custom_registered]
  have ev: "abs_eval_rule same_as_inputs (map NDArray [vec12]) = Inr (PySeq [NDArray vec12])"
    by (simp add: abs_eval_same_as_inputs)
  have it: "py_iter (PySeq [NDArray vec12]) = Inr [NDArray vec12]"
    by simp
  have shs: "collect attr_shape [NDArray vec12 :: int pyobj] = Inr [[2]]"
    by (simp add: vec12_def)
  have dts: "collect attr_dtype [NDArray vec12 :: int pyobj] = Inr [Int32]"
    by (simp add: vec12_def)
  have agree: "described (abs_eval_rule same_as_inputs (map NDArray [vec12]))
      = described (abs_eval_rule same_as_inputs (map descriptor [vec12]))"
    by (simp add: abs_eval_same_as_inputs described_def descriptor_def vec12_def)
  from w have "fst (bind_primitive custom_operator [vec12] custom_registered)
      = map_sum id unwrap (run custom_op (map2 np_zeros [[2]] [Int32]) [vec12])"
    using ev it shs dts by blast
  then have r: "fst (bind_primitive custom_operator [vec12] custom_registered)
       = Inr (Single (Array [2] Int32 [2, 3]))"
    by (simp add: run_custom_op_vec12 unwrap_def)
  from w agree have p: "fst (bind_primitive custom_operator [vec12] custom_registered)
       = eager_procedure custom_op same_as_inputs [vec12]"
    by blast
  from w have s: "snd (bind_primitive custom_operator [vec12] custom_registered) = custom_registered"
    by blast
  from custom_registered_op r p s show ?thesis by blast
qed

text \<open>
  C5 (eager execution), evaluated at the failing input.  The operator registered
  from \<open>custom_op\<close> with the evaluator \<open>lambda x: ShapedArray((len(x),), x.dtype)\<close>
  is called eagerly on the array \<open>[1, 2]\<close>.  The eager path hands the evaluator
  the array itself, so the call returns \<open>[2, 3]\<close>.  Run on the array's
  descriptor, as the claim has it, the evaluator raises \<open>TypeError\<close>, and so does
  the lowering of the same operator on an operand of that shape and dtype, since
  the translation rule does build descriptors.
\<close>

theorem eager_evaluator_sees_arrays:
  "fst (call_registered custom_op length_of_input [vec12] runtime_init)
     = Inr (Single (Array [2] Int32 [2, 3]))
   \<and> eager_procedure custom_op length_of_input [vec12] = Inl TypeError
   \<and> fst (lowered_once custom_op length_of_input [operand2] runtime_init) = Inl TypeError"
proof -
  have ev: "abs_eval_rule length_of_input [NDArray vec12]
      = Inr (PySeq [ShapedArray [2] Int32])"
    by (simp add: abs_eval_rule_def length_of_input_def vec12_def)
  have a: "fst (call_registered custom_op length_of_input [vec12] runtime_init)
     = Inr (Single (Array [2] Int32 [2, 3]))"
    by (simp add: call_registered_fst eval_rule_def ev run_custom_op_vec12 unwrap_def)
  have b: "eager_procedure custom_op length_of_input [vec12] = Inl TypeError"
    by (simp add: eager_procedure_def abs_eval_rule_def length_of_input_def descriptor_def)
  have d: "abs_eval_rule length_of_input [ShapedArray [2] Int32] = Inl TypeError"
    by (simp add: abs_eval_rule_def length_of_input_def)
  have c: "fst (lowered_once custom_op length_of_input [operand2] runtime_init) = Inl TypeError"
    by (simp add: lowered_once_def register_cpu_op_def Let_def translation_rule_def
        func_translation_def operand2_def d)
  from a b c show ?thesis by blast
qed

subsection \<open>Lowering\<close>

lemma compile_cpu_signature_effect:
  "compile_cpu_signature func idt ish odt osh st = (name, st') \<Longrightarrow>
     name = NativeNameOf (length (compilations st))
     \<and> compilations st' = compilations st @
          [\<lparr>func_to_call = kernel_name func, input_dtypes = idt, input_shapes = ish,
            output_dtypes = odt, output_shapes = osh\<rparr>]
     \<and> custom_call_targets st' = custom_call_targets st @
          [\<lparr>target = NativeNameOf (length (compilations st)),
            capsule_address = length (compilations st),
            capsule_tag = ''xla._CUSTOM_CALL_TARGET'', platform = ''cpu''\<rparr>]
     \<and> cpu_translations st' = cpu_translations st
     \<and> primitives st' = primitives st
     \<and> lambda_no st' = lambda_no st"
  by (auto simp: compile_cpu_signature_def Let_def)

lemma func_translation_Inr:
  assumes "func_translation func out_shapes inputs st = (Inr node, st')"
  shows "call_target_name node = NativeNameOf (length (compilations st))
     \<and> length (compilations st') = Suc (length (compilations st))
     \<and> func_to_call (last (compilations st')) = kernel_name func
     \<and> input_shapes (last (compilations st')) = map dimensions inputs
     \<and> input_dtypes (last (compilations st')) = map element_type inputs
     \<and> length (custom_call_targets st') = Suc (length (custom_call_targets st))
     \<and> target (last (custom_call_targets st')) = call_target_name node
     \<and> cpu_translations st' = cpu_translations st"
  using assms
  by (auto simp: func_translation_def Let_def split: sum.splits prod.splits
      dest!: compile_cpu_signature_effect)

text \<open>A lowering that raises has compiled and registered nothing.\<close>

lemma func_translation_Inl:
  assumes "func_translation func out_shapes inputs st = (Inl e, st')"
  shows "st' = st"
  using assms
  by (auto simp: func_translation_def Let_def split: sum.splits prod.splits)

lemma first_lowering:
  "fst (translation_rule custom_operator [operand2] custom_registered) =
     Inr \<lparr>call_target_name = NativeNameOf 0, operands = [operand2],
          operand_shapes_with_layout = [operand2],
          shape_with_layout = [(Int32, [2], [0])]\<rparr>"
  by (simp add: translation_rule_def custom_operator_def custom_registered_fields
      func_translation_def abs_eval_same_as_inputs operand2_def
      compile_cpu_signature_def Let_def)

text \<open>
  C3 as stated fails.  \<open>custom_op\<close> is registered in a fresh process and lowered
  twice on one operand of shape \<open>(2,)\<close> and dtype \<open>int32\<close>.  Two wrappers are
  compiled, for the same signature, and two call targets are registered; the
  second call node names the second of them.
\<close>

theorem translation_twice_compiles_twice:
  "map_sum id (\<lambda>(node1, node2). (call_target_name node1, call_target_name node2))
     (fst (lowered_twice custom_op same_as_inputs [operand2] runtime_init))
     = Inr (NativeNameOf 0, NativeNameOf 1)
   \<and> length (compilations (snd (lowered_twice custom_op same_as_inputs [operand2] runtime_init)))
     = 2
   \<and> map target
        (custom_call_targets (snd (lowered_twice custom_op same_as_inputs [operand2] runtime_init)))
     = [NativeNameOf 0, NativeNameOf 1]
   \<and> compilations (snd (lowered_twice custom_op same_as_inputs [operand2] runtime_init)) ! 0
     = compilations (snd (lowered_twice custom_op same_as_inputs [operand2] runtime_init)) ! 1"
  by (simp add: lowered_twice_def register_cpu_op_def Let_def runtime_init_def
      translation_rule_def func_translation_def abs_eval_same_as_inputs operand2_def
      compile_cpu_signature_def custom_op_def numba_jit_def)

text \<open>
  C3, amended.  The translation rule keeps no record of the signatures it has
  seen: every lowering that yields a call node compiles one more wrapper, for the
  operands' shapes and dtypes, and registers one more call target, which is the
  one the node names.  The translation table is left as it was, so lowering the
  same operator again with the same signature compiles and registers again.
\<close>

theorem translation_rule_compiles_every_time:
  assumes "translation_rule op inputs st = (Inr node, st')"
  shows "length (compilations st') = Suc (length (compilations st))
     \<and> length (custom_call_targets st') = Suc (length (custom_call_targets st))
     \<and> call_target_name node = NativeNameOf (length (compilations st))
     \<and> target (last (custom_call_targets st')) = call_target_name node
     \<and> input_shapes (last (compilations st')) = map dimensions inputs
     \<and> input_dtypes (last (compilations st')) = map element_type inputs
     \<and> cpu_translations st' = cpu_translations st"
proof -
  from assms obtain func out_shapes where
      tr: "cpu_translations st (op_ident op) = Some (func, out_shapes)"
      and ft: "func_translation func out_shapes inputs st = (Inr node, st')"
    by (auto simp: translation_rule_def split: option.splits)
  from func_translation_Inr [OF ft] show ?thesis by simp
qed

text \<open>The amended C3 at the first lowering of \<open>custom_op\<close>.\<close>

theorem translation_rule_compiles_every_time_witness:
  "length (compilations (snd (translation_rule custom_operator [operand2] custom_registered)))
     = Suc (length (compilations custom_registered))
   \<and> length (custom_call_targets
        (snd (translation_rule custom_operator [operand2] custom_registered)))
     = Suc (length (custom_call_targets custom_registered))"
proof -
  have h: "translation_rule custom_operator [operand2] custom_registered =
      (Inr \<lparr>call_target_name = NativeNameOf 0, operands = [operand2],
          operand_shapes_with_layout = [operand2],
          shape_with_layout = [(Int32, [2], [0])]\<rparr>,
       snd (translation_rule custom_operator [operand2] custom_registered))"
    using first_lowering by (simp add: prod_eq_iff)
  from translation_rule_compiles_every_time [OF h] show ?thesis by simp
qed

section \<open>Properties of the built-in operators\<close>

subsection \<open>Scattering, group by group\<close>

lemma length_scatter_with: "length (scatter_with f out ids vs) = length out"
  by (induction f out ids vs rule: scatter_with.induct) auto

lemma group_values_Nil: "group_values [] ids g = []"
  by (simp add: group_values_def)

lemma group_values_Nil_ids: "group_values vs [] g = []"
  by (simp add: group_values_def)

lemma group_values_Cons:
  "group_values (v # vs) (i # ids) g =
     (if i = g then v # group_values vs ids g else group_values vs ids g)"
  by (simp add: group_values_def)

text \<open>
  After a scatter, every cell holds its old content combined, from left to
  right, with the values of its group.
\<close>

lemma nth_scatter_with:
  "g < length out \<Longrightarrow>
     scatter_with f out ids vs ! g = foldl f (out ! g) (group_values vs ids g)"
proof (induction f out ids vs rule: scatter_with.induct)
  case (1 f out vs)
  then show ?case by (simp add: group_values_Nil_ids)
next
  case (2 f out i ids)
  then show ?case by (simp add: group_values_Nil)
next
  case (3 f out i ids v vs)
  then show ?case by (auto simp: group_values_Cons nth_list_update)
qed





subsection \<open>Broadcasting and segment operations on arrays of equal length\<close>





subsection \<open>\<open>syn2post_mean\<close>\<close>














subsection \<open>\<open>pre2post_mean\<close> on a scalar\<close>

lemma group_values_replicate:
  "group_values (replicate (length us) v) us g = replicate (length (filter (\<lambda>i. i = g) us)) v"
proof (induction us)
  case Nil
  then show ?case by (simp add: group_values_Nil_ids)
next
  case (Cons u us)
  then show ?case by (simp add: group_values_Cons)
qed

lemma foldl_keep_new:
  "foldl (\<lambda>old new. new) a (replicate k v) = (if k = 0 then a else v)"
  by (induction k arbitrary: a) simp_all

lemma set_unique: "set (unique ids) = set ids"
  by (simp add: unique_def)

lemma filter_eq_Nil_mem: "(filter (\<lambda>i. i = g) us = []) = (g \<notin> set us)"
  by (auto simp: filter_empty_conv)

text \<open>
  C10 (\<open>pre2post_mean\<close>, scalar case).  For every scalar \<open>v\<close>, every \<open>post_ids\<close>
  whose entries are all below \<open>post_num\<close>, and whatever \<open>pre_ids\<close> is, the result
  has length \<open>post_num\<close>, holds \<open>v\<close> itself at every index that occurs in
  \<open>post_ids\<close>, however often it occurs, and 0 at every other index.
\<close>

theorem pre2post_mean_scalar:
  assumes "list_all (\<lambda>i. i < post_num) post_ids"
  shows "pre2post_mean (Scalar v) post_num post_ids pre_ids
     = Inr (map (\<lambda>i. if i \<in> set post_ids then v else Fin 0) [0..<post_num])"
proof -
  have "scatter_with (\<lambda>old new. new) (replicate post_num (Fin 0)) (unique post_ids)
          (replicate (length (unique post_ids)) v)
      = map (\<lambda>i. if i \<in> set post_ids then v else Fin 0) [0..<post_num]"
    by (rule nth_equalityI)
       (auto simp: length_scatter_with nth_scatter_with group_values_replicate
          foldl_keep_new filter_eq_Nil_mem set_unique)
  then show ?thesis by (simp add: pre2post_mean_def)
qed

text \<open>C10 at the scalar 5, post ids \<open>[2, 0, 2]\<close> and three post-synaptic units.\<close>

theorem pre2post_mean_scalar_witness:
  "list_all (\<lambda>i. i < 3) [2, 0, 2 :: nat]
   \<and> pre2post_mean (Scalar (Fin 5)) 3 [2, 0, 2] None = Inr [Fin 5, Fin 0, Fin 5]"
proof -
  have h: "list_all (\<lambda>i. i < 3) [2, 0, 2 :: nat]" by simp
  have up: "[0..<3] = [0, 1, 2]" by (simp add: upt_rec)
  from pre2post_mean_scalar [OF h, of "Fin 5" None] h show ?thesis
    by (simp add: up)
qed

subsection \<open>The pre-to-post operators and \<open>pre_ids\<close>\<close>

lemma pre2post_with_None:
  "pre2post_with f (Vector vs) post_num post_ids None = Inl MathError"
  by (simp add: pre2post_with_def raise_pre_ids_is_none_def)

lemma pre2post_with_Scalar:
  "pre2post_with f (Scalar v) post_num post_ids pre_ids
     = Inr (scatter_with f (replicate post_num (Fin 0)) post_ids
              (replicate (length post_ids) v))"
  by (simp add: pre2post_with_def)

lemma pre2post_with_Some:
  "pre2post_with f (Vector vs) post_num post_ids (Some ids) \<noteq> Inl MathError"
  by (simp add: pre2post_with_def raise_pre_ids_is_none_def broadcast_to_def)

lemma pre2post_with_Some_eq:
  "length ids = length post_ids \<Longrightarrow>
     pre2post_with f (Vector vs) post_num post_ids (Some ids)
       = Inr (scatter_with f (replicate post_num (Fin 0)) post_ids (gather vs ids))"
  by (simp add: pre2post_with_def raise_pre_ids_is_none_def broadcast_to_def gather_def)

lemma syn2post_mean_not_MathError: "syn2post_mean a ids n srt \<noteq> Inl MathError"
  by (simp add: syn2post_mean_def segment_sum_def segment_sum_int32_def segment_reduce_def
      broadcast_to_def nan_to_num_quotient_def elementwise_def
      split: numeric.splits sum.splits)

text \<open>
  The check on \<open>pre_ids\<close>, for each of the five operators: with an array of
  pre-synaptic values and no \<open>pre_ids\<close> the call raises \<open>MathError\<close>; with a
  scalar, or with \<open>pre_ids\<close> given, it does not raise \<open>MathError\<close>.
\<close>

lemma directed_reduce_checks_pre_ids:
  "directed_reduce op (Vector vs) post_num post_ids None = Inl MathError
   \<and> directed_reduce op (Scalar v) post_num post_ids pre_ids \<noteq> Inl MathError
   \<and> directed_reduce op (Vector vs) post_num post_ids (Some ids) \<noteq> Inl MathError"
proof (cases op)
  case OpSum
  then show ?thesis
    by (simp add: pre2post_sum_def pre2post_with_None pre2post_with_Scalar pre2post_with_Some)
next
  case OpProd
  then show ?thesis
    by (simp add: pre2post_prod_def pre2post_with_None pre2post_with_Scalar pre2post_with_Some)
next
  case OpMin
  then show ?thesis
    by (simp add: pre2post_min_def pre2post_with_None pre2post_with_Scalar pre2post_with_Some)
next
  case OpMax
  then show ?thesis
    by (simp add: pre2post_max_def pre2post_with_None pre2post_with_Scalar pre2post_with_Some)
next
  case OpMean
  then show ?thesis
    by (simp add: pre2post_mean_def raise_pre_ids_is_none_def pre2syn_def
        syn2post_mean_not_MathError)
qed

text \<open>
  For the sum, whose identity is the 0 the output starts from, the operator is
  the specification's \<open>directed_reduce\<close>.
\<close>

lemma pre2post_sum_is_directed_reduce:
  "directed_reduce OpSum (Scalar v) post_num post_ids pre_ids
     = directed_reduce_spec OpSum (Scalar v) post_num post_ids pre_ids"
  "directed_reduce OpSum (Vector vs) post_num post_ids None
     = directed_reduce_spec OpSum (Vector vs) post_num post_ids None"
  "length ids = length post_ids \<Longrightarrow>
     directed_reduce OpSum (Vector vs) post_num post_ids (Some ids)
       = directed_reduce_spec OpSum (Vector vs) post_num post_ids (Some ids)"
  by (simp_all add: pre2post_sum_def pre2post_with_None pre2post_with_Scalar
      pre2post_with_Some_eq directed_reduce_spec_def)

text \<open>
  C7 (\<open>directed_reduce\<close>), evaluated at the failing input.  With an array of
  pre-synaptic values and \<open>pre_ids\<close> given, \<open>pre2post_prod\<close> on the values
  \<open>[2, 3]\<close>, both sent to post unit 0, returns \<open>[0]\<close>, where gathering and then
  scattering with prod gives \<open>[6]\<close>; \<open>pre2post_min\<close> on the value \<open>[5]\<close> returns
  \<open>[0]\<close>, where gathering and then scattering with min gives \<open>[5]\<close>.  The output
  of both starts from \<open>jnp.zeros\<close>, as that of \<open>pre2post_sum\<close> does, and not from
  the identity of the operation.
\<close>

theorem pre2post_prod_min_start_from_zero:
  "directed_reduce OpProd (Vector [Fin 2, Fin 3]) 1 [0, 0] (Some [0, 1]) = Inr [Fin 0]
   \<and> directed_reduce_spec OpProd (Vector [Fin 2, Fin 3]) 1 [0, 0] (Some [0, 1]) = Inr [Fin 6]
   \<and> directed_reduce OpMin (Vector [Fin 5]) 1 [0] (Some [0]) = Inr [Fin 0]
   \<and> directed_reduce_spec OpMin (Vector [Fin 5]) 1 [0] (Some [0]) = Inr [Fin 5]"
  by (simp add: pre2post_prod_def pre2post_min_def pre2post_with_def
      raise_pre_ids_is_none_def broadcast_to_def gather_def directed_reduce_spec_def)

subsection \<open>\<open>syn2post_softmax\<close>\<close>














subsection \<open>The event-driven operators and the extension's version\<close>

text \<open>Without the extension, both operators raise \<open>PackageMissingError\<close>.\<close>

lemma pre2post_event_absent:
  "pre2post_event_sum None events pre2post post_num vals = Inl PackageMissingError"
  "pre2post_event_prod None events pre2post post_num vals = Inl PackageMissingError"
  by (simp_all add: pre2post_event_sum_def pre2post_event_prod_def check_brainpylib_def)

text \<open>
  With the extension, the test made is one on strings; only when it passes is the
  extension's operator called.
\<close>

lemma pre2post_event_sum_gate:
  "pre2post_event_sum (Some lib) events pre2post post_num vals =
     (if str_lt (ext_version lib) ''0.0.3'' then Inl PackageMissingError
      else event_sum lib events pre2post post_num vals)"
  by (simp add: pre2post_event_sum_def check_brainpylib_def BRAINPYLIB_MINIMAL_VERSION_def)

lemma pre2post_event_prod_gate:
  "pre2post_event_prod (Some lib) events pre2post post_num vals =
     (if str_lt (ext_version lib) ''0.0.3'' then Inl PackageMissingError
      else event_prod lib events pre2post post_num vals)"
  by (simp add: pre2post_event_prod_def check_brainpylib_def BRAINPYLIB_MINIMAL_VERSION_def)

lemma version_string_0_0_10: "version_string [0, 0, 10] = ''0.0.10''"
  by (simp add: digit_char_def)

lemma version_string_0_0_3: "version_string [0, 0, 3] = ''0.0.3''"
  by (simp add: digit_char_def)

text \<open>The versions older than the minimum 0.0.3 are all refused.\<close>

lemma older_versions_refused:
  assumes "semver_lt [a, b, c] [0, 0, 3]"
  shows "str_lt (version_string [a, b, c]) BRAINPYLIB_MINIMAL_VERSION"
proof -
  have g0: "str_lt (version_string [0, 0, 0]) BRAINPYLIB_MINIMAL_VERSION"
    by (simp add: BRAINPYLIB_MINIMAL_VERSION_def digit_char_def)
  have g1: "str_lt (version_string [0, 0, 1]) BRAINPYLIB_MINIMAL_VERSION"
    by (simp add: BRAINPYLIB_MINIMAL_VERSION_def digit_char_def)
  have g2: "str_lt (version_string [0, 0, 2]) BRAINPYLIB_MINIMAL_VERSION"
    by (simp add: BRAINPYLIB_MINIMAL_VERSION_def digit_char_def)
  from assms have "a = 0" "b = 0" "c = 0 \<or> c = 1 \<or> c = 2" by auto
  then consider "a = 0 \<and> b = 0 \<and> c = 0" | "a = 0 \<and> b = 0 \<and> c = 1"
    | "a = 0 \<and> b = 0 \<and> c = 2"
    by blast
  then show ?thesis
  proof cases
    case 1
    then show ?thesis by (simp only: g0)
  next
    case 2
    then show ?thesis by (simp only: g1)
  next
    case 3
    then show ?thesis by (simp only: g2)
  qed
qed

text \<open>
  C6 (capability gating), evaluated at the failing input.  The extension is
  installed and reports version 0.0.10, which is not older than the minimum
  0.0.3.  Both event-driven operators raise \<open>PackageMissingError\<close>, whatever the
  extension's operators are and on every argument: as strings, \<open>0.0.10\<close> comes
  before \<open>0.0.3\<close>.  The claim asks that the call proceeds to the extension's
  operator when the extension is available.
\<close>

theorem event_operators_refuse_newer_version:
  "\<not> semver_lt [0, 0, 10] [0, 0, 3]
   \<and> version_string [0, 0, 3] = BRAINPYLIB_MINIMAL_VERSION
   \<and> pre2post_event_sum
        (Some \<lparr>ext_version = version_string [0, 0, 10], event_sum = es, event_prod = ep\<rparr>)
        events pre2post post_num vals = Inl PackageMissingError
   \<and> pre2post_event_prod
        (Some \<lparr>ext_version = version_string [0, 0, 10], event_sum = es, event_prod = ep\<rparr>)
        events pre2post post_num vals = Inl PackageMissingError"
  by (simp add: version_string_0_0_10 version_string_0_0_3 BRAINPYLIB_MINIMAL_VERSION_def
      pre2post_event_sum_gate pre2post_event_prod_gate del: version_string.simps)

end
